theory Spec2Isabelle
  imports Main "HOL-Library.Word"
begin

unbundle bit_operations_syntax

section \<open>JavaScript strings\<close>

text \<open>
  A JavaScript string is a sequence of UTF-16 code units: \<^verbatim>\<open>split("")\<close>,
  \<^verbatim>\<open>charCodeAt\<close>, \<^verbatim>\<open>substring\<close>, \<^verbatim>\<open>indexOf\<close> and \<^verbatim>\<open>startsWith\<close> all count code
  units. A string is therefore a list of 16-bit words; \<open>js\<close> embeds an ASCII literal.
\<close>

type_synonym code_unit = "16 word"
type_synonym js_string = "code_unit list"

definition js :: "string \<Rightarrow> js_string" where
  "js s = map of_char s"

definition newline :: code_unit where
  "newline = 10"

text \<open>\<^verbatim>\<open>s.startsWith(p)\<close>\<close>

definition startsWith :: "js_string \<Rightarrow> js_string \<Rightarrow> bool" where
  "startsWith s p = (take (length p) s = p)"

text \<open>
  \<^verbatim>\<open>s.trim()\<close> removes the WhiteSpace and LineTerminator code points of ECMAScript from
  both ends: TAB, LF, VT, FF, CR, SP, NBSP, U+1680, U+2000..U+200A, U+2028, U+2029,
  U+202F, U+205F, U+3000 and U+FEFF.
\<close>

definition is_whitespace :: "code_unit \<Rightarrow> bool" where
  "is_whitespace c =
     (c \<in> set [0x0009, 0x000A, 0x000B, 0x000C, 0x000D, 0x0020, 0x00A0, 0x1680,
                0x2000, 0x2001, 0x2002, 0x2003, 0x2004, 0x2005, 0x2006, 0x2007,
                0x2008, 0x2009, 0x200A, 0x2028, 0x2029, 0x202F, 0x205F, 0x3000, 0xFEFF])"

definition trimStart :: "js_string \<Rightarrow> js_string" where
  "trimStart s = dropWhile is_whitespace s"

definition trimEnd :: "js_string \<Rightarrow> js_string" where
  "trimEnd s = rev (dropWhile is_whitespace (rev s))"

definition trim :: "js_string \<Rightarrow> js_string" where
  "trim s = trimEnd (trimStart s)"

text \<open>\<^verbatim>\<open>s.split(sep)\<close> for a one-unit separator: the empty string gives one empty piece.\<close>

fun split :: "code_unit \<Rightarrow> js_string \<Rightarrow> js_string list" where
  "split sep [] = [[]]"
| "split sep (c # cs) =
     (if c = sep then [] # split sep cs
      else (case split sep cs of
              [] \<Rightarrow> [[c]]
            | piece # pieces \<Rightarrow> (c # piece) # pieces))"

text \<open>
  \<^verbatim>\<open>buffer.indexOf("\n")\<close> together with the two \<^verbatim>\<open>substring\<close> calls that follow it:
  the text before the first separator and the text after it, or \<open>None\<close> when
  \<^verbatim>\<open>indexOf\<close> returns \<open>-1\<close>.
\<close>

fun cut_at :: "code_unit \<Rightarrow> js_string \<Rightarrow> (js_string \<times> js_string) option" where
  "cut_at sep [] = None"
| "cut_at sep (c # cs) =
     (if c = sep then Some ([], cs)
      else (case cut_at sep cs of
              None \<Rightarrow> None
            | Some (before, rest) \<Rightarrow> Some (c # before, rest)))"

section \<open>Signature engine: the rotation transform\<close>

text \<open>
  \<^verbatim>\<open>rot13rot5Encode\<close>, the closure inside \<^verbatim>\<open>calculateSignatureV2\<close>. It maps every code unit of
  the string: \<open>rot13rot5_unit\<close> is the arrow function given to \<^verbatim>\<open>map\<close>, and
  \<^verbatim>\<open>String.fromCharCode\<close> is the conversion of the number back to a code unit.
\<close>

definition rot13rot5_unit :: "code_unit \<Rightarrow> code_unit" where
  "rot13rot5_unit c =
     (let charCode = unat c in
      if 65 \<le> charCode \<and> charCode \<le> 90 then of_nat ((charCode - 65 + 13) mod 26 + 65)
      else if 97 \<le> charCode \<and> charCode \<le> 122 then of_nat ((charCode - 97 + 13) mod 26 + 97)
      else if 48 \<le> charCode \<and> charCode \<le> 57 then of_nat ((charCode - 48 + 5) mod 10 + 48)
      else c)"

definition rot13rot5Encode :: "js_string \<Rightarrow> js_string" where
  "rot13rot5Encode str = map rot13rot5_unit str"

section \<open>Signature engine: digest, HMAC and the signature\<close>

text \<open>
  \<^verbatim>\<open>new TextEncoder().encode(str)\<close>: the UTF-8 bytes of a string of UTF-16 code units. A
  surrogate pair is encoded as one code point in four bytes; a lone surrogate becomes
  U+FFFD.
\<close>

type_synonym byte = "8 word"

definition is_high_surrogate :: "code_unit \<Rightarrow> bool" where
  "is_high_surrogate c = (0xD800 \<le> c \<and> c \<le> 0xDBFF)"

definition is_low_surrogate :: "code_unit \<Rightarrow> bool" where
  "is_low_surrogate c = (0xDC00 \<le> c \<and> c \<le> 0xDFFF)"

definition utf8_pair :: "code_unit \<Rightarrow> code_unit \<Rightarrow> byte list" where
  "utf8_pair hi lo =
     (let cp = 65536 + (unat hi - 55296) * 1024 + (unat lo - 56320) in
      [of_nat (240 + cp div 262144), of_nat (128 + cp div 4096 mod 64),
       of_nat (128 + cp div 64 mod 64), of_nat (128 + cp mod 64)])"

fun utf8_encode :: "js_string \<Rightarrow> byte list" where
  "utf8_encode [] = []"
| "utf8_encode (c # cs) =
     (if c < 0x80 then ucast c # utf8_encode cs
      else if c < 0x800 then
        [of_nat (192 + unat c div 64), of_nat (128 + unat c mod 64)] @ utf8_encode cs
      else if is_high_surrogate c then
        (case cs of
           [] \<Rightarrow> [0xEF, 0xBF, 0xBD]
         | d # ds \<Rightarrow>
             if is_low_surrogate d then utf8_pair c d @ utf8_encode ds
             else [0xEF, 0xBF, 0xBD] @ utf8_encode cs)
      else if is_low_surrogate c then [0xEF, 0xBF, 0xBD] @ utf8_encode cs
      else
        [of_nat (224 + unat c div 4096), of_nat (128 + unat c div 64 mod 64),
         of_nat (128 + unat c mod 64)] @ utf8_encode cs)"

text \<open>
  \<^verbatim>\<open>crypto.subtle.digest("SHA-256", ...)\<close> is a function of the platform. The model is
  SHA-256 as FIPS 180-4 defines it. A 32-bit word is the list of its 32 bits, least
  significant bit first, so that the bitwise operations, the rotations and the addition
  modulo \<open>2\<^sup>3\<^sup>2\<close> are recursions over the list; the constants are written as in the
  standard, in hexadecimal.
\<close>

type_synonym bits = "bool list"

fun xor_bits :: "bits \<Rightarrow> bits \<Rightarrow> bits" where
  "xor_bits (a # as) (b # bs) = (a \<noteq> b) # xor_bits as bs"
| "xor_bits _ _ = []"

fun and_bits :: "bits \<Rightarrow> bits \<Rightarrow> bits" where
  "and_bits (a # as) (b # bs) = (a \<and> b) # and_bits as bs"
| "and_bits _ _ = []"

definition not_bits :: "bits \<Rightarrow> bits" where
  "not_bits x = map Not x"

fun add_carry :: "bool \<Rightarrow> bits \<Rightarrow> bits \<Rightarrow> bits" where
  "add_carry c (a # as) (b # bs) =
     ((a \<noteq> b) \<noteq> c) # add_carry ((a \<and> b) \<or> (c \<and> (a \<noteq> b))) as bs"
| "add_carry c _ _ = []"

definition add32 :: "bits \<Rightarrow> bits \<Rightarrow> bits" where
  "add32 x y = add_carry False x y"

definition rotr :: "nat \<Rightarrow> bits \<Rightarrow> bits" where
  "rotr n x = drop n x @ take n x"

definition shr :: "nat \<Rightarrow> bits \<Rightarrow> bits" where
  "shr n x = drop n x @ replicate n False"

definition Ch :: "bits \<Rightarrow> bits \<Rightarrow> bits \<Rightarrow> bits" where
  "Ch x y z = xor_bits (and_bits x y) (and_bits (not_bits x) z)"

definition Maj :: "bits \<Rightarrow> bits \<Rightarrow> bits \<Rightarrow> bits" where
  "Maj x y z = xor_bits (xor_bits (and_bits x y) (and_bits x z)) (and_bits y z)"

definition Sigma0 :: "bits \<Rightarrow> bits" where
  "Sigma0 x = xor_bits (xor_bits (rotr 2 x) (rotr 13 x)) (rotr 22 x)"

definition Sigma1 :: "bits \<Rightarrow> bits" where
  "Sigma1 x = xor_bits (xor_bits (rotr 6 x) (rotr 11 x)) (rotr 25 x)"

definition sigma0 :: "bits \<Rightarrow> bits" where
  "sigma0 x = xor_bits (xor_bits (rotr 7 x) (rotr 18 x)) (shr 3 x)"

definition sigma1 :: "bits \<Rightarrow> bits" where
  "sigma1 x = xor_bits (xor_bits (rotr 17 x) (rotr 19 x)) (shr 10 x)"

text \<open>
  Bytes and words: the bits of a byte, the byte of eight bits, and the word written with
  eight hexadecimal digits.
\<close>

definition byte_bits :: "byte \<Rightarrow> bits" where
  "byte_bits b = map (bit b) [0, 1, 2, 3, 4, 5, 6, 7]"

definition bits_byte :: "bits \<Rightarrow> byte" where
  "bits_byte x = horner_sum of_bool 2 x"

definition nibble_bits :: "char \<Rightarrow> bits" where
  "nibble_bits c =
     (if c = CHR ''0'' then [False, False, False, False]
      else if c = CHR ''1'' then [True, False, False, False]
      else if c = CHR ''2'' then [False, True, False, False]
      else if c = CHR ''3'' then [True, True, False, False]
      else if c = CHR ''4'' then [False, False, True, False]
      else if c = CHR ''5'' then [True, False, True, False]
      else if c = CHR ''6'' then [False, True, True, False]
      else if c = CHR ''7'' then [True, True, True, False]
      else if c = CHR ''8'' then [False, False, False, True]
      else if c = CHR ''9'' then [True, False, False, True]
      else if c = CHR ''a'' then [False, True, False, True]
      else if c = CHR ''b'' then [True, True, False, True]
      else if c = CHR ''c'' then [False, False, True, True]
      else if c = CHR ''d'' then [True, False, True, True]
      else if c = CHR ''e'' then [False, True, True, True]
      else if c = CHR ''f'' then [True, True, True, True]
      else [])"

definition hex_word :: "string \<Rightarrow> bits" where
  "hex_word digits = concat (map nibble_bits (rev digits))"

definition K256 :: "bits list" where
  "K256 = map hex_word
     [''428a2f98'', ''71374491'', ''b5c0fbcf'', ''e9b5dba5'', ''3956c25b'', ''59f111f1'', ''923f82a4'', ''ab1c5ed5'',
      ''d807aa98'', ''12835b01'', ''243185be'', ''550c7dc3'', ''72be5d74'', ''80deb1fe'', ''9bdc06a7'', ''c19bf174'',
      ''e49b69c1'', ''efbe4786'', ''0fc19dc6'', ''240ca1cc'', ''2de92c6f'', ''4a7484aa'', ''5cb0a9dc'', ''76f988da'',
      ''983e5152'', ''a831c66d'', ''b00327c8'', ''bf597fc7'', ''c6e00bf3'', ''d5a79147'', ''06ca6351'', ''14292967'',
      ''27b70a85'', ''2e1b2138'', ''4d2c6dfc'', ''53380d13'', ''650a7354'', ''766a0abb'', ''81c2c92e'', ''92722c85'',
      ''a2bfe8a1'', ''a81a664b'', ''c24b8b70'', ''c76c51a3'', ''d192e819'', ''d6990624'', ''f40e3585'', ''106aa070'',
      ''19a4c116'', ''1e376c08'', ''2748774c'', ''34b0bcb5'', ''391c0cb3'', ''4ed8aa4a'', ''5b9cca4f'', ''682e6ff3'',
      ''748f82ee'', ''78a5636f'', ''84c87814'', ''8cc70208'', ''90befffa'', ''a4506ceb'', ''bef9a3f7'', ''c67178f2'']"

definition H256 :: "bits list" where
  "H256 = map hex_word
     [''6a09e667'', ''bb67ae85'', ''3c6ef372'', ''a54ff53a'', ''510e527f'', ''9b05688c'', ''1f83d9ab'', ''5be0cd19'']"

text \<open>
  The compression function. \<open>block_words\<close> reads the sixteen big-endian words of a
  block. \<open>rounds\<close> runs the 64 rounds over a window of the last sixteen words of the
  message schedule: the head of the window is the word of the current round, and
  \<open>next_word\<close> is the word that enters the window, sixteen rounds ahead.
\<close>

fun block_words :: "byte list \<Rightarrow> bits list" where
  "block_words (b0 # b1 # b2 # b3 # bs) =
     (byte_bits b3 @ byte_bits b2 @ byte_bits b1 @ byte_bits b0) # block_words bs"
| "block_words _ = []"

definition next_word :: "bits list \<Rightarrow> bits" where
  "next_word w = add32 (add32 (add32 (sigma1 (w ! 14)) (w ! 9)) (sigma0 (w ! 1))) (w ! 0)"

fun shift_in :: "bits \<Rightarrow> bits \<Rightarrow> bits list \<Rightarrow> bits list" where
  "shift_in t1 t2 [a, b, c, d, e, f, g, h] = [add32 t1 t2, a, b, c, add32 d t1, e, f, g]"
| "shift_in t1 t2 s = s"

fun round_step :: "bits list \<Rightarrow> bits \<Rightarrow> bits \<Rightarrow> bits list" where
  "round_step [a, b, c, d, e, f, g, h] k w =
     shift_in (add32 (add32 (add32 (add32 h (Sigma1 e)) (Ch e f g)) k) w)
       (add32 (Sigma0 a) (Maj a b c)) [a, b, c, d, e, f, g, h]"
| "round_step s k w = s"

fun rounds :: "bits list \<Rightarrow> bits list \<Rightarrow> bits list \<Rightarrow> bits list" where
  "rounds (k # ks) (w # ws) s = rounds ks (ws @ [next_word (w # ws)]) (round_step s k w)"
| "rounds _ _ s = s"

definition compress :: "bits list \<Rightarrow> byte list \<Rightarrow> bits list" where
  "compress h block = map2 add32 h (rounds K256 (block_words block) h)"

text \<open>
  Padding (a byte \<open>0x80\<close>, zero bytes up to 56 modulo 64, the bit length in eight
  big-endian bytes), the split into blocks of 64 bytes, and the digest.
\<close>

definition be64 :: "nat \<Rightarrow> byte list" where
  "be64 n = map (\<lambda>i. of_nat (n div 256 ^ i mod 256)) [7, 6, 5, 4, 3, 2, 1, 0]"

definition pad :: "byte list \<Rightarrow> byte list" where
  "pad m = m @ [0x80] @ replicate ((119 - length m mod 64) mod 64) 0 @ be64 (8 * length m)"

function blocks :: "byte list \<Rightarrow> byte list list" where
  "blocks bs = (if bs = [] then [] else take 64 bs # blocks (drop 64 bs))"
  by pat_completeness auto
termination
  by (relation "measure length") auto

declare blocks.simps [simp del]

definition word_bytes :: "bits \<Rightarrow> byte list" where
  "word_bytes w =
     [bits_byte (take 8 (drop 24 w)), bits_byte (take 8 (drop 16 w)),
      bits_byte (take 8 (drop 8 w)), bits_byte (take 8 w)]"

definition sha256 :: "byte list \<Rightarrow> byte list" where
  "sha256 m = concat (map word_bytes (foldl compress H256 (blocks (pad m))))"

text \<open>
  \<^verbatim>\<open>crypto.subtle.importKey\<close> and \<^verbatim>\<open>crypto.subtle.sign("HMAC", ...)\<close>: HMAC as RFC 2104
  defines it, with SHA-256 and its block size of 64 bytes. (The platform refuses a key of
  length zero; the signature code never supplies one.)
\<close>

definition hmac_key_block :: "byte list \<Rightarrow> byte list" where
  "hmac_key_block key =
     (let k = (if 64 < length key then sha256 key else key)
      in k @ replicate (64 - length k) 0)"

definition hmac_sha256 :: "byte list \<Rightarrow> byte list \<Rightarrow> byte list" where
  "hmac_sha256 key msg =
     sha256 (map (\<lambda>b. b XOR 0x5C) (hmac_key_block key) @
       sha256 (map (\<lambda>b. b XOR 0x36) (hmac_key_block key) @ msg))"

text \<open>
  \<^verbatim>\<open>Array.from(new Uint8Array(buffer)).map(byte => byte.toString(16).padStart(2, "0")).join("")\<close>
\<close>

definition hex_digit :: "nat \<Rightarrow> code_unit" where
  "hex_digit n = of_nat (if n < 10 then 48 + n else 87 + n)"

definition hex_string :: "byte list \<Rightarrow> js_string" where
  "hex_string bytes = concat (map (\<lambda>b. [hex_digit (unat b div 16), hex_digit (unat b mod 16)]) bytes)"

text \<open>\<^verbatim>\<open>array.join(sep)\<close>\<close>

fun join :: "js_string \<Rightarrow> js_string list \<Rightarrow> js_string" where
  "join sep [] = []"
| "join sep [s] = s"
| "join sep (s # rest) = s @ sep @ join sep rest"

text \<open>
  \<^verbatim>\<open>calculateSignatureV2\<close>. The secret is optional; \<^verbatim>\<open>!signatureSecret\<close> holds when it is
  \<^verbatim>\<open>undefined\<close> and also when it is the empty string, and the default takes its place.
\<close>

definition default_signature_secret :: js_string where
  "default_signature_secret =
     js ''6bc455473576ce2cd6f70426caff867aabbe3f7291c1a79681af5e8ce0ca1408''"

definition calculateSignatureV2 ::
  "js_string \<Rightarrow> js_string \<Rightarrow> js_string \<Rightarrow> js_string option \<Rightarrow> js_string" where
  "calculateSignatureV2 timestamp deviceId bodyStr signatureSecret =
     (let secret =
            (case signatureSecret of
               None \<Rightarrow> default_signature_secret
             | Some given \<Rightarrow> if given = [] then default_signature_secret else given);
          hashHex = hex_string (sha256 (utf8_encode bodyStr));
          message = join (js ''.'') (map rot13rot5Encode [timestamp, deviceId, hashHex])
      in hex_string (hmac_sha256 (utf8_encode secret) (utf8_encode message)))"

section \<open>Header assembly\<close>

text \<open>
  \<^verbatim>\<open>Env\<close> of \<^verbatim>\<open>types.ts\<close>. The signing secret is read with a test for its absence, so it is
  optional here as the other optional variables are.
\<close>

record Env =
  RAYCAST_BEARER_TOKEN :: js_string
  RAYCAST_DEVICE_ID :: js_string
  RAYCAST_SIGNATURE_SECRET :: "js_string option"
  API_KEY :: "js_string option"
  ADVANCED :: "js_string option"
  INCLUDE_DEPRECATED :: "js_string option"

definition USER_AGENT :: js_string where
  "USER_AGENT = js ''Raycast/1.94.2 (macOS Version 15.3.2 (Build 24D81))''"

text \<open>
  \<^verbatim>\<open>getRaycastHeaders\<close>. The timestamp \<^verbatim>\<open>new Date().toISOString()\<close> is an argument; the body
  string is \<open>None\<close> for \<^verbatim>\<open>null\<close>. \<^verbatim>\<open>if (bodyString)\<close> holds for a string that is not
  empty. The result is the header record, a map from names to values.
\<close>

definition getRaycastHeaders ::
  "Env \<Rightarrow> js_string \<Rightarrow> js_string option \<Rightarrow> (js_string \<rightharpoonup> js_string)" where
  "getRaycastHeaders env timestamp bodyString =
     (let deviceId = RAYCAST_DEVICE_ID env;
          headers =
            [js ''Host'' \<mapsto> js ''backend.raycast.com'',
             js ''Accept'' \<mapsto> js ''application/json'',
             js ''User-Agent'' \<mapsto> USER_AGENT,
             js ''Authorization'' \<mapsto> js ''Bearer '' @ RAYCAST_BEARER_TOKEN env,
             js ''Accept-Language'' \<mapsto> js ''en-US,en;q=0.9'',
             js ''Content-Type'' \<mapsto> js ''application/json'',
             js ''Connection'' \<mapsto> js ''close'',
             js ''X-Raycast-Timestamp'' \<mapsto> timestamp,
             js ''X-Raycast-DeviceId'' \<mapsto> deviceId]
      in case bodyString of
           None \<Rightarrow> headers
         | Some body \<Rightarrow>
             if body \<noteq> [] then
               headers(js ''X-Raycast-Signature-v2'' \<mapsto>
                 calculateSignatureV2 timestamp deviceId body (RAYCAST_SIGNATURE_SECRET env))
             else headers)"


section \<open>Message format converter\<close>

record OpenAIMessage =
  role :: js_string
  content :: js_string

record RaycastMessage =
  author :: js_string
  content_text :: js_string

record MessageConversionResult =
  raycastMessages :: "RaycastMessage list"
  systemInstruction :: js_string

text \<open>
  \<^verbatim>\<open>convertMessages\<close>: the loop over \<^verbatim>\<open>openaiMessages.entries()\<close>, with the index, the
  instruction and the output list as loop state. The nested \<^verbatim>\<open>content: { text: ... }\<close> of a
  vendor message is the field \<open>content_text\<close>.
\<close>

fun convertMessages_loop ::
  "nat \<Rightarrow> OpenAIMessage list \<Rightarrow> MessageConversionResult \<Rightarrow> MessageConversionResult" where
  "convertMessages_loop index [] acc = acc"
| "convertMessages_loop index (msg # msgs) acc =
     convertMessages_loop (Suc index) msgs
       (if role msg = js ''system'' \<and> index = 0 then
          acc\<lparr>systemInstruction := content msg\<rparr>
        else if role msg = js ''user'' \<or> role msg = js ''assistant'' then
          acc\<lparr>raycastMessages :=
                raycastMessages acc @ [\<lparr>author = role msg, content_text = content msg\<rparr>]\<rparr>
        else acc)"

definition convertMessages :: "OpenAIMessage list \<Rightarrow> MessageConversionResult" where
  "convertMessages openaiMessages =
     convertMessages_loop 0 openaiMessages
       \<lparr>raycastMessages = [], systemInstruction = js ''markdown''\<rparr>"

text \<open>
  The converter as the specification words it: \<open>is_turn\<close> selects the messages that
  become vendor messages, \<open>to_vendor\<close> is the vendor message made from one of them.
\<close>

definition is_turn :: "OpenAIMessage \<Rightarrow> bool" where
  "is_turn msg = (role msg = js ''user'' \<or> role msg = js ''assistant'')"

definition to_vendor :: "OpenAIMessage \<Rightarrow> RaycastMessage" where
  "to_vendor msg = \<lparr>author = role msg, content_text = content msg\<rparr>"

section \<open>Platform functions\<close>

text \<open>
  \<^verbatim>\<open>RaycastSSEData\<close> of \<^verbatim>\<open>types.ts\<close>: both members are optional, and \<^verbatim>\<open>finish_reason\<close> may
  also be \<^verbatim>\<open>null\<close>.
\<close>

datatype finish_reason_member = FinishUndefined | FinishNull | FinishValue js_string

record RaycastSSEData =
  data_text :: "js_string option"
  finish_reason :: finish_reason_member

text \<open>
  The handlers call functions of the JavaScript platform; the model takes them as the
  fields of a record.
  \<^item> \<open>JSON_parse\<close> is \<^verbatim>\<open>JSON.parse\<close>, its result seen at the type \<^verbatim>\<open>RaycastSSEData\<close> that the
    source annotates it with. \<open>None\<close> stands for a payload on which the statements
    guarded by the \<^verbatim>\<open>try\<close> throw: \<^verbatim>\<open>JSON.parse\<close> itself, or the member read on a
    \<^verbatim>\<open>null\<close> result. Payloads whose members have other types than the declared ones
    are outside the model.
  \<^item> \<open>generateUUID n\<close> and \<open>Date_now n\<close> are the values that \<^verbatim>\<open>generateUUID()\<close> and
    \<^verbatim>\<open>Date.now()\<close> return for the \<open>n\<close>-th envelope built during one request.
  \<^item> \<open>write_fails n\<close> tells whether the downstream channel rejects the \<open>n\<close>-th
    \<^verbatim>\<open>writer.write\<close> of the request (counted from 0).
\<close>

record platform =
  JSON_parse :: "js_string \<Rightarrow> RaycastSSEData option"
  generateUUID :: "nat \<Rightarrow> js_string"
  Date_now :: "nat \<Rightarrow> nat"
  write_fails :: "nat \<Rightarrow> bool"

section \<open>Stream translator: non-streaming mode\<close>

text \<open>
  \<^verbatim>\<open>parseSSEResponse\<close>: the loop over \<^verbatim>\<open>responseText.split("\n")\<close> with \<^verbatim>\<open>fullText\<close> as its
  state. \<^verbatim>\<open>if (jsonData.text)\<close> holds for a present, non-empty text.
\<close>

fun parseSSEResponse_loop :: "platform \<Rightarrow> js_string list \<Rightarrow> js_string \<Rightarrow> js_string" where
  "parseSSEResponse_loop P [] fullText = fullText"
| "parseSSEResponse_loop P (line # lines) fullText =
     parseSSEResponse_loop P lines
       (if startsWith line (js ''data:'') then
          (case JSON_parse P (trim (drop 5 line)) of
             None \<Rightarrow> fullText
           | Some jsonData \<Rightarrow>
               (case data_text jsonData of
                  None \<Rightarrow> fullText
                | Some fragment \<Rightarrow> if fragment \<noteq> [] then fullText @ fragment else fullText))
        else fullText)"

definition parseSSEResponse :: "platform \<Rightarrow> js_string \<Rightarrow> js_string" where
  "parseSSEResponse P responseText = parseSSEResponse_loop P (split newline responseText) []"

text \<open>\<^verbatim>\<open>OpenAIChatResponse\<close> of \<^verbatim>\<open>types.ts\<close>.\<close>

record ResponseMessage =
  message_role :: js_string
  message_content :: js_string
  refusal :: "js_string option"
  annotations :: "js_string list"

record ResponseChoice =
  choice_index :: nat
  message :: ResponseMessage
  logprobs :: "js_string option"
  choice_finish_reason :: "js_string option"

record PromptTokensDetails =
  cached_tokens :: nat
  prompt_audio_tokens :: nat

record CompletionTokensDetails =
  reasoning_tokens :: nat
  completion_audio_tokens :: nat
  accepted_prediction_tokens :: nat
  rejected_prediction_tokens :: nat

record ResponseUsage =
  prompt_tokens :: nat
  completion_tokens :: nat
  total_tokens :: nat
  prompt_tokens_details :: PromptTokensDetails
  completion_tokens_details :: CompletionTokensDetails

record OpenAIChatResponse =
  response_id :: js_string
  response_object :: js_string
  response_created :: nat
  response_model :: js_string
  choices :: "ResponseChoice list"
  usage :: ResponseUsage
  service_tier :: js_string
  system_fingerprint :: "js_string option"

text \<open>
  \<^verbatim>\<open>handleNonStreamingResponse\<close>, from the buffered body text (\<^verbatim>\<open>await response.text()\<close>) to
  the object that is serialised into the HTTP response.
\<close>

definition handleNonStreamingResponse ::
  "platform \<Rightarrow> js_string \<Rightarrow> js_string \<Rightarrow> OpenAIChatResponse" where
  "handleNonStreamingResponse P responseText requestedModelId =
     \<lparr>response_id = js ''chatcmpl-'' @ generateUUID P 0,
      response_object = js ''chat.completion'',
      response_created = Date_now P 0 div 1000,
      response_model = requestedModelId,
      choices =
        [\<lparr>choice_index = 0,
          message =
            \<lparr>message_role = js ''assistant'',
             message_content = parseSSEResponse P responseText,
             refusal = None,
             annotations = []\<rparr>,
          logprobs = None,
          choice_finish_reason = Some (js ''stop'')\<rparr>],
      usage =
        \<lparr>prompt_tokens = 0,
         completion_tokens = 0,
         total_tokens = 0,
         prompt_tokens_details = \<lparr>cached_tokens = 0, prompt_audio_tokens = 0\<rparr>,
         completion_tokens_details =
           \<lparr>reasoning_tokens = 0,
            completion_audio_tokens = 0,
            accepted_prediction_tokens = 0,
            rejected_prediction_tokens = 0\<rparr>\<rparr>,
      service_tier = js ''default'',
      system_fingerprint = None\<rparr>"

text \<open>
  The loop body of \<^verbatim>\<open>parseSSEResponse\<close> as a function of the line: what one line adds to
  \<^verbatim>\<open>fullText\<close>. The prefix is looked for on the line as \<^verbatim>\<open>split\<close> delivers it, untrimmed.
\<close>

definition line_fragment :: "platform \<Rightarrow> js_string \<Rightarrow> js_string" where
  "line_fragment P line =
     (if startsWith line (js ''data:'') then
        (case JSON_parse P (trim (drop 5 line)) of
           None \<Rightarrow> []
         | Some jsonData \<Rightarrow> (case data_text jsonData of None \<Rightarrow> [] | Some fragment \<Rightarrow> fragment))
      else [])"

text \<open>
  The framing grammar as the specification words it, for comparison with the code: a line
  is significant when, after trimming, it starts with "data:"; the remainder after the
  prefix, trimmed, is the token "[DONE]", which carries no payload, or the text of an
  event; a payload that does not parse is skipped. \<open>spec_content\<close> is the non-streaming
  content of the specification: the fragments present on the significant lines, in
  arrival order.
\<close>

definition spec_significant :: "js_string \<Rightarrow> bool" where
  "spec_significant line = startsWith (trim line) (js ''data:'')"

definition spec_line_fragment :: "platform \<Rightarrow> js_string \<Rightarrow> js_string" where
  "spec_line_fragment P line =
     (if spec_significant line then
        (if trim (drop 5 (trim line)) = js ''[DONE]'' then []
         else (case JSON_parse P (trim (drop 5 (trim line))) of
                 None \<Rightarrow> []
               | Some jsonData \<Rightarrow>
                   (case data_text jsonData of None \<Rightarrow> [] | Some fragment \<Rightarrow> fragment)))
      else [])"

definition spec_content :: "platform \<Rightarrow> js_string \<Rightarrow> js_string" where
  "spec_content P responseText =
     concat (map (spec_line_fragment P) (split newline responseText))"

section \<open>Stream translator: streaming mode\<close>

text \<open>The chunk object built for one vendor event.\<close>

record ChunkChoice =
  chunk_index :: nat
  delta_content :: js_string
  chunk_finish_reason :: "js_string option"

record SSEChunk =
  chunk_id :: js_string
  chunk_object :: js_string
  chunk_created :: nat
  chunk_model :: js_string
  chunk_choices :: "ChunkChoice list"

definition make_chunk :: "platform \<Rightarrow> js_string \<Rightarrow> nat \<Rightarrow> RaycastSSEData \<Rightarrow> SSEChunk" where
  "make_chunk P requestedModelId n jsonData =
     \<lparr>chunk_id = js ''chatcmpl-'' @ generateUUID P n,
      chunk_object = js ''chat.completion.chunk'',
      chunk_created = Date_now P n div 1000,
      chunk_model = requestedModelId,
      chunk_choices =
        [\<lparr>chunk_index = 0,
          delta_content = (case data_text jsonData of None \<Rightarrow> [] | Some fragment \<Rightarrow> fragment),
          chunk_finish_reason =
            (case finish_reason jsonData of
               FinishUndefined \<Rightarrow> None
             | FinishNull \<Rightarrow> None
             | FinishValue reason \<Rightarrow> Some reason)\<rparr>]\<rparr>"

text \<open>
  What the translator hands to \<^verbatim>\<open>writer.write\<close>: the line
  \<^verbatim>\<open>data: ${JSON.stringify(chunk)}\n\n\<close> of a chunk, or the literal terminator line
  \<^verbatim>\<open>data: [DONE]\n\n\<close>. \<open>render\<close> gives the text, for a serialiser \<open>stringify\<close>.
\<close>

datatype downstream_line = ChunkLine SSEChunk | DoneLine

fun render :: "(SSEChunk \<Rightarrow> js_string) \<Rightarrow> downstream_line \<Rightarrow> js_string" where
  "render stringify (ChunkLine chunk) = js ''data: '' @ stringify chunk @ [newline, newline]"
| "render stringify DoneLine = js ''data: [DONE]'' @ [newline, newline]"

text \<open>
  The calls the translator makes on its two streams, in the order it makes them:
  \<^verbatim>\<open>reader.read()\<close>, \<^verbatim>\<open>writer.write(...)\<close> (accepted or rejected), \<^verbatim>\<open>writer.abort(...)\<close>,
  \<^verbatim>\<open>writer.close()\<close> and \<^verbatim>\<open>reader.cancel()\<close>.
\<close>

datatype effect =
    ReadUpstream
  | WriteOk downstream_line
  | WriteFailed downstream_line
  | AbortWriter
  | CloseWriter
  | CancelReader

text \<open>
  One \<^verbatim>\<open>reader.read()\<close> of the vendor body resolves to a piece of decoded text or rejects;
  after the last element of the list the reader reports \<^verbatim>\<open>done\<close>.
\<close>

datatype read_result = Chunk js_string | ReadError

text \<open>The local variables of the translator, the write counter and the calls made so far.\<close>

record stream_state =
  buffer :: js_string
  streamFinished :: bool
  aborted :: bool
  writes :: nat
  trace :: "effect list"

definition initial_state :: stream_state where
  "initial_state = \<lparr>buffer = [], streamFinished = False, aborted = False, writes = 0, trace = []\<rparr>"

text \<open>
  \<^verbatim>\<open>await writer.write(...)\<close> of a chunk with its \<^verbatim>\<open>catch (writeError)\<close> branch, and the test
  on \<^verbatim>\<open>finish_reason\<close> that follows an accepted write. The result tells whether the line
  loop goes on (\<open>True\<close>) or leaves through \<^verbatim>\<open>break\<close>.
\<close>

definition emit_chunk ::
  "platform \<Rightarrow> js_string \<Rightarrow> RaycastSSEData \<Rightarrow> stream_state \<Rightarrow> bool \<times> stream_state" where
  "emit_chunk P requestedModelId jsonData st =
     (if write_fails P (writes st) then
        (False,
         st\<lparr>aborted := True, streamFinished := True, writes := Suc (writes st),
            trace := trace st @
              [WriteFailed (ChunkLine (make_chunk P requestedModelId (writes st) jsonData)),
               AbortWriter]\<rparr>)
      else if finish_reason jsonData \<noteq> FinishNull \<and> finish_reason jsonData \<noteq> FinishUndefined then
        (False,
         st\<lparr>streamFinished := True, writes := Suc (writes st),
            trace := trace st @
              [WriteOk (ChunkLine (make_chunk P requestedModelId (writes st) jsonData))]\<rparr>)
      else
        (True,
         st\<lparr>writes := Suc (writes st),
            trace := trace st @
              [WriteOk (ChunkLine (make_chunk P requestedModelId (writes st) jsonData))]\<rparr>))"

lemma cut_at_shorter: "cut_at sep s = Some (before, rest) \<Longrightarrow> length rest < length s"
  by (induction s arbitrary: before) (auto split: if_splits option.splits)

text \<open>
  The inner loop \<^verbatim>\<open>while ((newlineIndex = buffer.indexOf("\n")) >= 0)\<close>: one complete line
  is cut off the buffer per iteration.
\<close>

function process_buffer :: "platform \<Rightarrow> js_string \<Rightarrow> stream_state \<Rightarrow> stream_state" where
  "process_buffer P requestedModelId st =
     (case cut_at newline (buffer st) of
        None \<Rightarrow> st
      | Some (before, rest) \<Rightarrow>
          if \<not> startsWith (trim before) (js ''data:'') then
            process_buffer P requestedModelId (st\<lparr>buffer := rest\<rparr>)
          else if trim (drop 5 (trim before)) = js ''[DONE]'' then
            st\<lparr>buffer := rest, streamFinished := True\<rparr>
          else
            (case JSON_parse P (trim (drop 5 (trim before))) of
               None \<Rightarrow> process_buffer P requestedModelId (st\<lparr>buffer := rest\<rparr>)
             | Some jsonData \<Rightarrow>
                 if fst (emit_chunk P requestedModelId jsonData (st\<lparr>buffer := rest\<rparr>)) then
                   process_buffer P requestedModelId
                     (snd (emit_chunk P requestedModelId jsonData (st\<lparr>buffer := rest\<rparr>)))
                 else snd (emit_chunk P requestedModelId jsonData (st\<lparr>buffer := rest\<rparr>))))"
  by pat_completeness auto
termination
  by (relation "measure (\<lambda>(P, requestedModelId, st). length (buffer st))")
     (auto simp: emit_chunk_def dest: cut_at_shorter split: if_splits)

declare process_buffer.simps [simp del]

text \<open>
  The outer loop \<^verbatim>\<open>while (!streamFinished)\<close> over the reads of the vendor body. \<open>Inl\<close> is
  the state in which \<^verbatim>\<open>reader.read()\<close> rejected, so that control passes to the outer
  \<^verbatim>\<open>catch\<close>; \<open>Inr\<close> is the state in which the loop ended.
\<close>

fun read_loop ::
  "platform \<Rightarrow> js_string \<Rightarrow> read_result list \<Rightarrow> stream_state \<Rightarrow> stream_state + stream_state" where
  "read_loop P requestedModelId [] st =
     (if streamFinished st then Inr st
      else Inr (st\<lparr>streamFinished := True, trace := trace st @ [ReadUpstream]\<rparr>))"
| "read_loop P requestedModelId (r # rs) st =
     (if streamFinished st then Inr st
      else (case r of
              ReadError \<Rightarrow> Inl (st\<lparr>trace := trace st @ [ReadUpstream]\<rparr>)
            | Chunk decoded \<Rightarrow>
                read_loop P requestedModelId rs
                  (process_buffer P requestedModelId
                     (st\<lparr>buffer := buffer st @ decoded, trace := trace st @ [ReadUpstream]\<rparr>))))"

text \<open>
  What follows the loops: the terminator write guarded by \<^verbatim>\<open>if (!aborted)\<close>, the outer
  \<^verbatim>\<open>catch\<close>, and the \<^verbatim>\<open>finally\<close> block.
\<close>

definition write_done :: "platform \<Rightarrow> stream_state \<Rightarrow> stream_state" where
  "write_done P st =
     (if \<not> aborted st then
        (if write_fails P (writes st) then
           st\<lparr>aborted := True, writes := Suc (writes st),
              trace := trace st @ [WriteFailed DoneLine, AbortWriter]\<rparr>
         else st\<lparr>writes := Suc (writes st), trace := trace st @ [WriteOk DoneLine]\<rparr>)
      else st)"

definition on_stream_error :: "stream_state \<Rightarrow> stream_state" where
  "on_stream_error st =
     (if \<not> aborted st then st\<lparr>aborted := True, trace := trace st @ [AbortWriter]\<rparr> else st)"

definition cleanup :: "stream_state \<Rightarrow> stream_state" where
  "cleanup st =
     (if \<not> aborted st then st\<lparr>trace := trace st @ [CloseWriter, CancelReader]\<rparr>
      else st\<lparr>trace := trace st @ [CancelReader]\<rparr>)"

definition finish_stream :: "platform \<Rightarrow> stream_state + stream_state \<Rightarrow> stream_state" where
  "finish_stream P outcome =
     (case outcome of
        Inr st \<Rightarrow> cleanup (write_done P st)
      | Inl st \<Rightarrow> cleanup (on_stream_error st))"

text \<open>
  \<^verbatim>\<open>handleStreamingResponse\<close>: the body of the asynchronous closure, from the response body
  (\<open>None\<close> when \<^verbatim>\<open>response.body\<close> is null) to the calls it makes on the two streams.
\<close>

definition handleStreamingResponse ::
  "platform \<Rightarrow> read_result list option \<Rightarrow> js_string \<Rightarrow> effect list" where
  "handleStreamingResponse P body requestedModelId =
     (case body of
        None \<Rightarrow> [CloseWriter]
      | Some reads \<Rightarrow>
          trace (finish_stream P (read_loop P requestedModelId reads initial_state)))"

section \<open>Example inputs\<close>

text \<open>
  A platform for running the examples of the specification: its parser knows the three
  payloads of the example stream and rejects every other text, every write is accepted,
  and the identifiers and the clock are fixed.
\<close>

definition example_JSON_parse :: "js_string \<Rightarrow> RaycastSSEData option" where
  \<open>example_JSON_parse payload =
     (if payload = js ''{"text":"Hel"}'' then
        Some \<lparr>data_text = Some (js ''Hel''), finish_reason = FinishUndefined\<rparr>
      else if payload = js ''{"text":"lo"}'' then
        Some \<lparr>data_text = Some (js ''lo''), finish_reason = FinishUndefined\<rparr>
      else if payload = js ''{"finish_reason":"stop"}'' then
        Some \<lparr>data_text = None, finish_reason = FinishValue (js ''stop'')\<rparr>
      else None)\<close>

definition example_platform :: platform where
  "example_platform =
     \<lparr>JSON_parse = example_JSON_parse,
      generateUUID = (\<lambda>n. js ''6f1d2c3a-0000-4000-8000-000000000000''),
      Date_now = (\<lambda>n. 1700000000000),
      write_fails = (\<lambda>n. False)\<rparr>"

definition example_body :: js_string where
  \<open>example_body =
     js ''data: {"text":"Hel"}'' @ [newline] @
     js ''data: {"text":"lo"}'' @ [newline] @
     js ''data: {"finish_reason":"stop"}'' @ [newline]\<close>


definition example_timestamp :: js_string where
  "example_timestamp = js ''2024-01-01T00:00:00.000Z''"

section \<open>Observations on the calls of the streaming translator\<close>

fun is_failed_write :: "effect \<Rightarrow> bool" where
  "is_failed_write (WriteFailed line) = True"
| "is_failed_write _ = False"

fun is_done_write :: "effect \<Rightarrow> bool" where
  "is_done_write (WriteOk DoneLine) = True"
| "is_done_write (WriteFailed DoneLine) = True"
| "is_done_write _ = False"

text \<open>
  The relation between the flag \<^verbatim>\<open>aborted\<close> and the calls made so far that every state of
  the translator satisfies: before the abort no write has been rejected; after it the loop
  is finished, and the last two calls are the rejected write and \<^verbatim>\<open>writer.abort\<close>.
\<close>

definition abort_invariant :: "stream_state \<Rightarrow> bool" where
  "abort_invariant st =
     (if aborted st then
        streamFinished st \<and>
        (\<exists>pre line. trace st = pre @ [WriteFailed line, AbortWriter]
           \<and> filter is_failed_write pre = [])
      else filter is_failed_write (trace st) = [])"

text \<open>
  Further example inputs: a downstream channel that rejects the second write, a vendor
  body with a terminator line between two events, and a vendor body whose event line is
  indented by one space.
\<close>

definition second_write_rejected :: platform where
  "second_write_rejected = example_platform\<lparr>write_fails := (\<lambda>n. n = 1)\<rparr>"

definition done_body :: js_string where
  \<open>done_body =
     js ''data: {"text":"Hel"}'' @ [newline] @
     js ''data: [DONE]'' @ [newline] @
     js ''data: {"text":"lo"}'' @ [newline]\<close>

definition indented_body :: js_string where
  \<open>indented_body = js '' data: {"text":"Hel"}'' @ [newline]\<close>

section \<open>Properties of the rotation transform\<close>

lemma unat_of_nat_16: "n < 65536 \<Longrightarrow> unat (of_nat n :: 16 word) = n"
  by (simp add: unat_of_nat)

lemma rotate_twice:
  fixes n :: nat
  assumes "lo \<le> n" "n < lo + 2 * h" "0 < h"
  shows "(((n - lo + h) mod (2 * h) + lo) - lo + h) mod (2 * h) + lo = n"
proof -
  define k where "k = n - lo"
  have k: "k < 2 * h" "n = k + lo" using assms by (simp_all add: k_def)
  have "((k + h) mod (2 * h) + h) mod (2 * h) = (k + h + h) mod (2 * h)"
    by (rule mod_add_left_eq)
  also have "\<dots> = (k + 2 * h) mod (2 * h)" by (simp add: mult_2 add.assoc)
  also have "\<dots> = k" using k(1) by simp
  finally show ?thesis using k(2) by simp
qed

lemma rotate_range:
  fixes n :: nat
  assumes "0 < m"
  shows "lo \<le> (n - lo + h) mod m + lo \<and> (n - lo + h) mod m + lo < lo + m"
  using assms by simp

lemma rot13rot5_unit_of_nat:
  assumes "j < 65536"
  shows "rot13rot5_unit (of_nat j) =
     (if 65 \<le> j \<and> j \<le> 90 then of_nat ((j - 65 + 13) mod 26 + 65)
      else if 97 \<le> j \<and> j \<le> 122 then of_nat ((j - 97 + 13) mod 26 + 97)
      else if 48 \<le> j \<and> j \<le> 57 then of_nat ((j - 48 + 5) mod 10 + 48)
      else of_nat j)"
  unfolding rot13rot5_unit_def Let_def unat_of_nat_16 [OF assms] by (rule refl)

lemma rot13rot5_unit_involution: "rot13rot5_unit (rot13rot5_unit c) = c"
proof -
  define n where "n = unat c"
  have c: "c = of_nat n" by (simp add: n_def)
  have n: "n < 65536" using unsigned_less [of c, where 'a = nat] by (simp add: n_def)
  consider (upper) "65 \<le> n \<and> n \<le> 90" | (lower) "97 \<le> n \<and> n \<le> 122"
    | (digit) "48 \<le> n \<and> n \<le> 57"
    | (other) "\<not> (65 \<le> n \<and> n \<le> 90) \<and> \<not> (97 \<le> n \<and> n \<le> 122) \<and> \<not> (48 \<le> n \<and> n \<le> 57)"
    by blast
  then have "rot13rot5_unit (rot13rot5_unit (of_nat n)) = (of_nat n :: 16 word)"
  proof cases
    case upper
    define j where "j = (n - 65 + 13) mod 26 + 65"
    have j: "65 \<le> j \<and> j \<le> 90" unfolding j_def using rotate_range [of 26 65 n 13] by simp
    have "(j - 65 + 13) mod 26 + 65 = n"
      unfolding j_def using rotate_twice [of 65 n 13] upper by simp
    moreover have "rot13rot5_unit (of_nat n) = of_nat j"
      using upper n by (subst rot13rot5_unit_of_nat) (simp_all add: j_def)
    moreover have "rot13rot5_unit (of_nat j) = of_nat ((j - 65 + 13) mod 26 + 65)"
      using j by (subst rot13rot5_unit_of_nat) simp_all
    ultimately show ?thesis by simp
  next
    case lower
    define j where "j = (n - 97 + 13) mod 26 + 97"
    have j: "97 \<le> j \<and> j \<le> 122" unfolding j_def using rotate_range [of 26 97 n 13] by simp
    have "(j - 97 + 13) mod 26 + 97 = n"
      unfolding j_def using rotate_twice [of 97 n 13] lower by simp
    moreover have "rot13rot5_unit (of_nat n) = of_nat j"
      using lower n by (subst rot13rot5_unit_of_nat) (simp_all add: j_def)
    moreover have "rot13rot5_unit (of_nat j) = of_nat ((j - 97 + 13) mod 26 + 97)"
      using j by (subst rot13rot5_unit_of_nat) simp_all
    ultimately show ?thesis by simp
  next
    case digit
    define j where "j = (n - 48 + 5) mod 10 + 48"
    have j: "48 \<le> j \<and> j \<le> 57" unfolding j_def using rotate_range [of 10 48 n 5] by simp
    have "(j - 48 + 5) mod 10 + 48 = n"
      unfolding j_def using rotate_twice [of 48 n 5] digit by simp
    moreover have "rot13rot5_unit (of_nat n) = of_nat j"
      using digit n by (subst rot13rot5_unit_of_nat) (simp_all add: j_def)
    moreover have "rot13rot5_unit (of_nat j) = of_nat ((j - 48 + 5) mod 10 + 48)"
      using j by (subst rot13rot5_unit_of_nat) simp_all
    ultimately show ?thesis by simp
  next
    case other
    then have "rot13rot5_unit (of_nat n) = (of_nat n :: 16 word)"
      using n by (subst rot13rot5_unit_of_nat) auto
    then show ?thesis by simp
  qed
  then show ?thesis by (simp add: c)
qed

text \<open>
  C7. For every string \<open>s\<close>, applying the letter/digit rotation transform twice returns
  the original string: the letters are rotated twice by 13 over a range of 26, the digits
  twice by 5 over a range of 10, and every other code unit is left alone both times.
\<close>

theorem C7_rot13rot5Encode_twice: "rot13rot5Encode (rot13rot5Encode s) = s"
  by (simp add: rot13rot5Encode_def rot13rot5_unit_involution map_idI)

section \<open>Properties of the message format converter\<close>

lemma js_roles_distinct:
  "js ''system'' \<noteq> js ''user''" "js ''system'' \<noteq> js ''assistant''"
  by (simp_all add: js_def)

lemma convertMessages_loop_later:
  "convertMessages_loop (Suc i) msgs acc =
     acc\<lparr>raycastMessages := raycastMessages acc @ map to_vendor (filter is_turn msgs)\<rparr>"
  by (induction msgs arbitrary: i acc) (simp_all add: is_turn_def to_vendor_def)

text \<open>
  C6. For every ordered message list the converter returns (it has no failing branch):
  the system instruction is the content of the first message when that message has role
  "system", and the literal "markdown" otherwise; the vendor messages are exactly the
  messages with role "user" or "assistant", a leading system message excluded, in input
  order, each mapped to author = role and text = content. Every other role and every
  later "system" message is dropped.
\<close>

theorem C6_convertMessages:
  "convertMessages msgs =
     \<lparr>raycastMessages =
        map to_vendor (filter is_turn
          (case msgs of [] \<Rightarrow> [] | first # rest \<Rightarrow> if role first = js ''system'' then rest else msgs)),
      systemInstruction =
        (case msgs of [] \<Rightarrow> js ''markdown''
         | first # rest \<Rightarrow> if role first = js ''system'' then content first else js ''markdown'')\<rparr>"
proof (cases msgs)
  case Nil
  then show ?thesis by (simp add: convertMessages_def)
next
  case (Cons first rest)
  then show ?thesis
    by (simp add: convertMessages_def convertMessages_loop_later is_turn_def to_vendor_def)
qed


section \<open>Properties of the non-streaming translation\<close>

lemma split_nonempty: "split sep s \<noteq> []"
  by (induction s) (auto split: list.splits)

lemma split_append: "split sep (a @ sep # b) = split sep a @ split sep b"
proof (induction a)
  case Nil
  then show ?case by simp
next
  case (Cons c a)
  then show ?case
    using split_nonempty [of sep a] by (auto split: list.splits)
qed

lemma split_single: "sep \<notin> set l \<Longrightarrow> split sep l = [l]"
  by (induction l) auto

lemma parseSSEResponse_loop_concat:
  "parseSSEResponse_loop P lines fullText = fullText @ concat (map (line_fragment P) lines)"
  by (induction lines arbitrary: fullText)
     (auto simp: line_fragment_def split: option.splits)

lemma parseSSEResponse_concat:
  "parseSSEResponse P responseText = concat (map (line_fragment P) (split newline responseText))"
  by (simp add: parseSSEResponse_def parseSSEResponse_loop_concat)



lemma example_lines:
  \<open>split newline example_body =
     [js ''data: {"text":"Hel"}'', js ''data: {"text":"lo"}'',
      js ''data: {"finish_reason":"stop"}'', []]\<close>
  by (simp add: example_body_def js_def newline_def)

lemma example_payloads:
  \<open>trim (drop 5 (js ''data: {"text":"Hel"}'')) = js ''{"text":"Hel"}''\<close>
  \<open>trim (drop 5 (js ''data: {"text":"lo"}'')) = js ''{"text":"lo"}''\<close>
  \<open>trim (drop 5 (js ''data: {"finish_reason":"stop"}'')) = js ''{"finish_reason":"stop"}''\<close>
  \<open>trim (drop 5 (js ''data: [DONE]'')) = js ''[DONE]''\<close>
  by (simp_all add: trim_def trimStart_def trimEnd_def is_whitespace_def js_def)

lemma example_prefixes:
  \<open>startsWith (js ''data: {"text":"Hel"}'') (js ''data:'')\<close>
  \<open>startsWith (js ''data: {"text":"lo"}'') (js ''data:'')\<close>
  \<open>startsWith (js ''data: {"finish_reason":"stop"}'') (js ''data:'')\<close>
  \<open>startsWith (js ''data: [DONE]'') (js ''data:'')\<close>
  \<open>\<not> startsWith [] (js ''data:'')\<close>
  by (simp_all add: startsWith_def js_def)

text \<open>
  The shape of the non-streaming response, for every body: one choice, whose content is
  the concatenation in line order of what the loop of the parser takes from each line,
  with finish_reason "stop" and every usage counter equal to zero. Once the parser maps
  the three payloads of the example to the events they denote, the example body of the
  specification yields the content "Hello".
\<close>

lemma handleNonStreamingResponse_content:
  \<open>choices (handleNonStreamingResponse P responseText requestedModelId) =
     [\<lparr>choice_index = 0,
       message =
         \<lparr>message_role = js ''assistant'',
          message_content = concat (map (line_fragment P) (split newline responseText)),
          refusal = None,
          annotations = []\<rparr>,
       logprobs = None,
       choice_finish_reason = Some (js ''stop'')\<rparr>]
   \<and> usage (handleNonStreamingResponse P responseText requestedModelId) =
     \<lparr>prompt_tokens = 0, completion_tokens = 0, total_tokens = 0,
      prompt_tokens_details = \<lparr>cached_tokens = 0, prompt_audio_tokens = 0\<rparr>,
      completion_tokens_details =
        \<lparr>reasoning_tokens = 0, completion_audio_tokens = 0,
         accepted_prediction_tokens = 0, rejected_prediction_tokens = 0\<rparr>\<rparr>
   \<and> (JSON_parse P (js ''{"text":"Hel"}'') =
          Some \<lparr>data_text = Some (js ''Hel''), finish_reason = FinishUndefined\<rparr>
        \<and> JSON_parse P (js ''{"text":"lo"}'') =
          Some \<lparr>data_text = Some (js ''lo''), finish_reason = FinishUndefined\<rparr>
        \<and> JSON_parse P (js ''{"finish_reason":"stop"}'') =
          Some \<lparr>data_text = None, finish_reason = FinishValue (js ''stop'')\<rparr>
        \<longrightarrow> map (message_content \<circ> message)
              (choices (handleNonStreamingResponse P example_body requestedModelId)) =
            [js ''Hello''])\<close>
proof (intro conjI impI)
  show \<open>choices (handleNonStreamingResponse P responseText requestedModelId) =
     [\<lparr>choice_index = 0,
       message =
         \<lparr>message_role = js ''assistant'',
          message_content = concat (map (line_fragment P) (split newline responseText)),
          refusal = None,
          annotations = []\<rparr>,
       logprobs = None,
       choice_finish_reason = Some (js ''stop'')\<rparr>]\<close>
    by (simp add: handleNonStreamingResponse_def parseSSEResponse_concat)
next
  show \<open>usage (handleNonStreamingResponse P responseText requestedModelId) =
     \<lparr>prompt_tokens = 0, completion_tokens = 0, total_tokens = 0,
      prompt_tokens_details = \<lparr>cached_tokens = 0, prompt_audio_tokens = 0\<rparr>,
      completion_tokens_details =
        \<lparr>reasoning_tokens = 0, completion_audio_tokens = 0,
         accepted_prediction_tokens = 0, rejected_prediction_tokens = 0\<rparr>\<rparr>\<close>
    by (simp add: handleNonStreamingResponse_def)
next
  assume parses:
    \<open>JSON_parse P (js ''{"text":"Hel"}'') =
          Some \<lparr>data_text = Some (js ''Hel''), finish_reason = FinishUndefined\<rparr>
        \<and> JSON_parse P (js ''{"text":"lo"}'') =
          Some \<lparr>data_text = Some (js ''lo''), finish_reason = FinishUndefined\<rparr>
        \<and> JSON_parse P (js ''{"finish_reason":"stop"}'') =
          Some \<lparr>data_text = None, finish_reason = FinishValue (js ''stop'')\<rparr>\<close>
  have \<open>parseSSEResponse P example_body = js ''Hel'' @ js ''lo''\<close>
    using parses
    by (simp add: parseSSEResponse_concat example_lines line_fragment_def
        example_payloads example_prefixes)
  also have \<open>\<dots> = js ''Hello''\<close> by (simp add: js_def)
  finally show \<open>map (message_content \<circ> message)
              (choices (handleNonStreamingResponse P example_body requestedModelId)) =
            [js ''Hello'']\<close>
    by (simp add: handleNonStreamingResponse_def)
qed

lemma example_nonstreaming_content:
  \<open>map (message_content \<circ> message)
     (choices (handleNonStreamingResponse example_platform example_body (js ''openai-gpt-4o-mini''))) =
   [js ''Hello'']\<close>
proof -
  have parses:
    \<open>JSON_parse example_platform (js ''{"text":"Hel"}'') =
          Some \<lparr>data_text = Some (js ''Hel''), finish_reason = FinishUndefined\<rparr>
        \<and> JSON_parse example_platform (js ''{"text":"lo"}'') =
          Some \<lparr>data_text = Some (js ''lo''), finish_reason = FinishUndefined\<rparr>
        \<and> JSON_parse example_platform (js ''{"finish_reason":"stop"}'') =
          Some \<lparr>data_text = None, finish_reason = FinishValue (js ''stop'')\<rparr>\<close>
    by (simp add: example_platform_def example_JSON_parse_def js_def)
  show ?thesis
    by (rule handleNonStreamingResponse_content
          [of example_platform _ \<open>js ''openai-gpt-4o-mini''\<close>,
            THEN conjunct2, THEN conjunct2, THEN mp])
       (rule parses)
qed



section \<open>Properties of the streaming translation\<close>

lemma cut_at_append: "sep \<notin> set a \<Longrightarrow> cut_at sep (a @ sep # b) = Some (a, b)"
  by (induction a) auto

lemma process_buffer_no_line:
  "cut_at newline (buffer st) = None \<Longrightarrow> process_buffer P m st = st"
  by (subst process_buffer.simps) simp

lemma process_buffer_skip:
  "cut_at newline (buffer st) = Some (before, rest) \<Longrightarrow>
   \<not> startsWith (trim before) (js ''data:'') \<Longrightarrow>
   process_buffer P m st = process_buffer P m (st\<lparr>buffer := rest\<rparr>)"
  by (subst process_buffer.simps) simp

lemma process_buffer_done:
  "cut_at newline (buffer st) = Some (before, rest) \<Longrightarrow>
   startsWith (trim before) (js ''data:'') \<Longrightarrow>
   trim (drop 5 (trim before)) = js ''[DONE]'' \<Longrightarrow>
   process_buffer P m st = st\<lparr>buffer := rest, streamFinished := True\<rparr>"
  by (subst process_buffer.simps) simp

lemma process_buffer_unparsed:
  "cut_at newline (buffer st) = Some (before, rest) \<Longrightarrow>
   startsWith (trim before) (js ''data:'') \<Longrightarrow>
   trim (drop 5 (trim before)) \<noteq> js ''[DONE]'' \<Longrightarrow>
   JSON_parse P (trim (drop 5 (trim before))) = None \<Longrightarrow>
   process_buffer P m st = process_buffer P m (st\<lparr>buffer := rest\<rparr>)"
  by (subst process_buffer.simps) simp

lemma process_buffer_event:
  "cut_at newline (buffer st) = Some (before, rest) \<Longrightarrow>
   startsWith (trim before) (js ''data:'') \<Longrightarrow>
   trim (drop 5 (trim before)) \<noteq> js ''[DONE]'' \<Longrightarrow>
   JSON_parse P (trim (drop 5 (trim before))) = Some jsonData \<Longrightarrow>
   process_buffer P m st =
     (if fst (emit_chunk P m jsonData (st\<lparr>buffer := rest\<rparr>)) then
        process_buffer P m (snd (emit_chunk P m jsonData (st\<lparr>buffer := rest\<rparr>)))
      else snd (emit_chunk P m jsonData (st\<lparr>buffer := rest\<rparr>)))"
  by (subst process_buffer.simps) simp

lemma emit_chunk_invariant:
  assumes "\<not> aborted st" "filter is_failed_write (trace st) = []"
  shows "abort_invariant (snd (emit_chunk P m jsonData st))"
    and "fst (emit_chunk P m jsonData st) \<Longrightarrow>
           \<not> aborted (snd (emit_chunk P m jsonData st))
           \<and> filter is_failed_write (trace (snd (emit_chunk P m jsonData st))) = []"
  using assms by (auto simp: emit_chunk_def abort_invariant_def)

lemma process_buffer_invariant:
  "\<not> aborted st \<Longrightarrow> filter is_failed_write (trace st) = [] \<Longrightarrow>
   abort_invariant (process_buffer P m st)"
proof (induction P m st rule: process_buffer.induct)
  case (1 P m st)
  show ?case
  proof (cases "cut_at newline (buffer st)")
    case None
    with "1.prems" show ?thesis
      by (simp add: process_buffer_no_line abort_invariant_def)
  next
    case (Some cut)
    obtain before rest where cut: "cut = (before, rest)" by (cases cut)
    note line = Some [unfolded cut]
    show ?thesis
    proof (cases "startsWith (trim before) (js ''data:'')")
      case False
      with "1.IH"(1) [OF line refl] "1.prems" line show ?thesis
        by (simp add: process_buffer_skip)
    next
      case True
      show ?thesis
      proof (cases "trim (drop 5 (trim before)) = js ''[DONE]''")
        case terminator: True
        with True line "1.prems" show ?thesis
          by (simp add: process_buffer_done abort_invariant_def)
      next
        case payload: False
        show ?thesis
        proof (cases "JSON_parse P (trim (drop 5 (trim before)))")
          case None
          with "1.IH"(2) [OF line refl _ payload None] True "1.prems" line payload show ?thesis
            by (simp add: process_buffer_unparsed)
        next
          case (Some jsonData)
          let ?st1 = "st\<lparr>buffer := rest\<rparr>"
          have st1: "\<not> aborted ?st1" "filter is_failed_write (trace ?st1) = []"
            using "1.prems" by simp_all
          show ?thesis
          proof (cases "fst (emit_chunk P m jsonData ?st1)")
            case go: True
            have "abort_invariant (process_buffer P m (snd (emit_chunk P m jsonData ?st1)))"
              using "1.IH"(3) [OF line refl _ payload Some go] True
                emit_chunk_invariant(2) [OF st1 go] by simp
            with line True payload Some go show ?thesis
              by (simp add: process_buffer_event)
          next
            case stop: False
            with line True payload Some emit_chunk_invariant(1) [OF st1] show ?thesis
              by (simp add: process_buffer_event)
          qed
        qed
      qed
    qed
  qed
qed

lemma read_loop_invariant:
  "abort_invariant st \<Longrightarrow>
   (case read_loop P m reads st of
      Inr st' \<Rightarrow> abort_invariant st'
    | Inl st' \<Rightarrow> \<not> aborted st' \<and> filter is_failed_write (trace st') = [])"
proof (induction reads arbitrary: st)
  case Nil
  then show ?case by (auto simp: abort_invariant_def split: if_splits)
next
  case (Cons r reads)
  show ?case
  proof (cases "streamFinished st")
    case True
    with Cons.prems show ?thesis by simp
  next
    case False
    with Cons.prems have clean: "\<not> aborted st" "filter is_failed_write (trace st) = []"
      by (auto simp: abort_invariant_def split: if_splits)
    show ?thesis
    proof (cases r)
      case ReadError
      with False clean show ?thesis by simp
    next
      case (Chunk decoded)
      let ?st1 = "st\<lparr>buffer := buffer st @ decoded, trace := trace st @ [ReadUpstream]\<rparr>"
      have "abort_invariant (process_buffer P m ?st1)"
        using clean by (intro process_buffer_invariant) simp_all
      from Cons.IH [OF this] Chunk False show ?thesis by simp
    qed
  qed
qed

lemma failed_write_unique:
  assumes "filter is_failed_write a = []" "filter is_failed_write b = []"
    and "a @ WriteFailed x # s = b @ WriteFailed y # t"
  shows "s = t"
  using assms
proof (induction a arbitrary: b)
  case Nil
  then show ?case by (cases b) auto
next
  case (Cons e a)
  then show ?case by (cases b) (auto split: if_splits)
qed

lemma finish_stream_shape:
  assumes "case outcome of
             Inr st \<Rightarrow> abort_invariant st
           | Inl st \<Rightarrow> \<not> aborted st \<and> filter is_failed_write (trace st) = []"
  shows "filter is_failed_write (trace (finish_stream P outcome)) = []
       \<or> (\<exists>pre line. trace (finish_stream P outcome) =
             pre @ WriteFailed line # [AbortWriter, CancelReader]
           \<and> filter is_failed_write pre = [])"
proof (cases outcome)
  case (Inl st)
  with assms show ?thesis
    by (simp add: finish_stream_def on_stream_error_def cleanup_def)
next
  case (Inr st)
  with assms have inv: "abort_invariant st" by simp
  show ?thesis
  proof (cases "aborted st")
    case True
    with inv obtain pre line where
      "trace st = pre @ [WriteFailed line, AbortWriter]" "filter is_failed_write pre = []"
      by (auto simp: abort_invariant_def)
    with True Inr show ?thesis
      by (simp add: finish_stream_def write_done_def cleanup_def)
  next
    case False
    with inv have clean: "filter is_failed_write (trace st) = []"
      by (simp add: abort_invariant_def)
    show ?thesis
    proof (cases "write_fails P (writes st)")
      case True
      with False Inr clean show ?thesis
        by (simp add: finish_stream_def write_done_def cleanup_def)
    next
      case ok: False
      with False Inr clean show ?thesis
        by (simp add: finish_stream_def write_done_def cleanup_def)
    qed
  qed
qed

lemma handleStreamingResponse_shape:
  "filter is_failed_write (handleStreamingResponse P body m) = []
   \<or> (\<exists>pre line. handleStreamingResponse P body m =
         pre @ WriteFailed line # [AbortWriter, CancelReader]
       \<and> filter is_failed_write pre = [])"
proof (cases body)
  case None
  then show ?thesis by (simp add: handleStreamingResponse_def)
next
  case (Some reads)
  have "abort_invariant initial_state"
    by (simp add: abort_invariant_def initial_state_def)
  from finish_stream_shape [OF read_loop_invariant [OF this]] Some show ?thesis
    by (simp add: handleStreamingResponse_def)
qed

lemma process_buffer_line:
  "newline \<notin> set line \<Longrightarrow>
   process_buffer P m
     \<lparr>buffer = line @ newline # rest, streamFinished = f, aborted = a, writes = w, trace = t\<rparr> =
     (if \<not> startsWith (trim line) (js ''data:'') then
        process_buffer P m
          \<lparr>buffer = rest, streamFinished = f, aborted = a, writes = w, trace = t\<rparr>
      else if trim (drop 5 (trim line)) = js ''[DONE]'' then
        \<lparr>buffer = rest, streamFinished = True, aborted = a, writes = w, trace = t\<rparr>
      else
        (case JSON_parse P (trim (drop 5 (trim line))) of
           None \<Rightarrow>
             process_buffer P m
               \<lparr>buffer = rest, streamFinished = f, aborted = a, writes = w, trace = t\<rparr>
         | Some jsonData \<Rightarrow>
             if fst (emit_chunk P m jsonData
                  \<lparr>buffer = rest, streamFinished = f, aborted = a, writes = w, trace = t\<rparr>)
             then process_buffer P m
                (snd (emit_chunk P m jsonData
                  \<lparr>buffer = rest, streamFinished = f, aborted = a, writes = w, trace = t\<rparr>))
             else snd (emit_chunk P m jsonData
                  \<lparr>buffer = rest, streamFinished = f, aborted = a, writes = w, trace = t\<rparr>)))"
  by (subst process_buffer.simps) (simp add: cut_at_append cong: option.case_cong if_cong)

lemma process_buffer_empty:
  "process_buffer P m
     \<lparr>buffer = [], streamFinished = f, aborted = a, writes = w, trace = t\<rparr> =
   \<lparr>buffer = [], streamFinished = f, aborted = a, writes = w, trace = t\<rparr>"
  by (simp add: process_buffer_no_line)

lemma example_no_newline:
  \<open>newline \<notin> set (js ''data: {"text":"Hel"}'')\<close>
  \<open>newline \<notin> set (js ''data: {"text":"lo"}'')\<close>
  \<open>newline \<notin> set (js ''data: {"finish_reason":"stop"}'')\<close>
  \<open>newline \<notin> set (js ''data: [DONE]'')\<close>
  \<open>newline \<notin> set (js '' data: {"text":"Hel"}'')\<close>
  by (simp_all add: js_def newline_def)

lemma example_trims:
  \<open>trim (js ''data: {"text":"Hel"}'') = js ''data: {"text":"Hel"}''\<close>
  \<open>trim (js ''data: {"text":"lo"}'') = js ''data: {"text":"lo"}''\<close>
  \<open>trim (js ''data: {"finish_reason":"stop"}'') = js ''data: {"finish_reason":"stop"}''\<close>
  \<open>trim (js ''data: [DONE]'') = js ''data: [DONE]''\<close>
  \<open>trim (js '' data: {"text":"Hel"}'') = js ''data: {"text":"Hel"}''\<close>
  by (simp_all add: trim_def trimStart_def trimEnd_def is_whitespace_def js_def)

lemma example_not_done:
  \<open>js ''{"text":"Hel"}'' \<noteq> js ''[DONE]''\<close>
  \<open>js ''{"text":"lo"}'' \<noteq> js ''[DONE]''\<close>
  \<open>js ''{"finish_reason":"stop"}'' \<noteq> js ''[DONE]''\<close>
  by (simp_all add: js_def)

lemma example_parses:
  \<open>example_JSON_parse (js ''{"text":"Hel"}'') =
     Some \<lparr>data_text = Some (js ''Hel''), finish_reason = FinishUndefined\<rparr>\<close>
  \<open>example_JSON_parse (js ''{"text":"lo"}'') =
     Some \<lparr>data_text = Some (js ''lo''), finish_reason = FinishUndefined\<rparr>\<close>
  \<open>example_JSON_parse (js ''{"finish_reason":"stop"}'') =
     Some \<lparr>data_text = None, finish_reason = FinishValue (js ''stop'')\<rparr>\<close>
  \<open>example_JSON_parse (js ''[DONE]'') = None\<close>
  by (simp_all add: example_JSON_parse_def js_def)

lemmas example_facts =
  example_no_newline example_trims example_prefixes example_payloads example_not_done
  example_parses process_buffer_line process_buffer_empty

lemma example_stream:
  \<open>handleStreamingResponse example_platform (Some [Chunk example_body]) (js ''m'') =
     [ReadUpstream,
      WriteOk (ChunkLine (make_chunk example_platform (js ''m'') 0
        \<lparr>data_text = Some (js ''Hel''), finish_reason = FinishUndefined\<rparr>)),
      WriteOk (ChunkLine (make_chunk example_platform (js ''m'') 1
        \<lparr>data_text = Some (js ''lo''), finish_reason = FinishUndefined\<rparr>)),
      WriteOk (ChunkLine (make_chunk example_platform (js ''m'') 2
        \<lparr>data_text = None, finish_reason = FinishValue (js ''stop'')\<rparr>)),
      WriteOk DoneLine, CloseWriter, CancelReader]\<close>
  by (simp add: handleStreamingResponse_def initial_state_def example_body_def example_facts
      emit_chunk_def example_platform_def finish_stream_def write_done_def cleanup_def
      numeral_2_eq_2)

lemma second_write_rejected_stream:
  \<open>handleStreamingResponse second_write_rejected (Some [Chunk example_body]) (js ''m'') =
     [ReadUpstream,
      WriteOk (ChunkLine (make_chunk second_write_rejected (js ''m'') 0
        \<lparr>data_text = Some (js ''Hel''), finish_reason = FinishUndefined\<rparr>))] @
      WriteFailed (ChunkLine (make_chunk second_write_rejected (js ''m'') 1
        \<lparr>data_text = Some (js ''lo''), finish_reason = FinishUndefined\<rparr>)) #
      drop 3 (handleStreamingResponse second_write_rejected (Some [Chunk example_body]) (js ''m''))\<close>
  by (simp add: handleStreamingResponse_def initial_state_def example_body_def example_facts
      emit_chunk_def example_platform_def second_write_rejected_def finish_stream_def
      write_done_def cleanup_def)

lemma emit_chunk_no_done:
  "filter is_done_write (trace (snd (emit_chunk P m jsonData st))) =
   filter is_done_write (trace st)"
  by (simp add: emit_chunk_def)

lemma process_buffer_no_done:
  "filter is_done_write (trace (process_buffer P m st)) = filter is_done_write (trace st)"
proof (induction P m st rule: process_buffer.induct)
  case (1 P m st)
  show ?case
  proof (cases "cut_at newline (buffer st)")
    case None
    then show ?thesis by (simp add: process_buffer_no_line)
  next
    case (Some cut)
    obtain before rest where cut: "cut = (before, rest)" by (cases cut)
    note line = Some [unfolded cut]
    show ?thesis
    proof (cases "startsWith (trim before) (js ''data:'')")
      case False
      with "1.IH"(1) [OF line refl] line show ?thesis
        by (simp add: process_buffer_skip)
    next
      case True
      show ?thesis
      proof (cases "trim (drop 5 (trim before)) = js ''[DONE]''")
        case terminator: True
        with True line show ?thesis by (simp add: process_buffer_done)
      next
        case payload: False
        show ?thesis
        proof (cases "JSON_parse P (trim (drop 5 (trim before)))")
          case None
          with "1.IH"(2) [OF line refl _ payload None] True line payload show ?thesis
            by (simp add: process_buffer_unparsed)
        next
          case (Some jsonData)
          show ?thesis
          proof (cases "fst (emit_chunk P m jsonData (st\<lparr>buffer := rest\<rparr>))")
            case go: True
            with "1.IH"(3) [OF line refl _ payload Some go] True line payload Some show ?thesis
              by (simp add: process_buffer_event emit_chunk_no_done)
          next
            case stop: False
            with line True payload Some show ?thesis
              by (simp add: process_buffer_event emit_chunk_no_done)
          qed
        qed
      qed
    qed
  qed
qed

lemma read_loop_no_done:
  "filter is_done_write (trace (case read_loop P m reads st of Inl st' \<Rightarrow> st' | Inr st' \<Rightarrow> st')) =
   filter is_done_write (trace st)"
  by (induction reads arbitrary: st)
     (auto simp: process_buffer_no_done split: read_result.splits)

lemma terminator_written_at_most_once:
  "length (filter is_done_write (handleStreamingResponse P body m)) \<le> 1"
proof (cases body)
  case None
  then show ?thesis by (simp add: handleStreamingResponse_def)
next
  case (Some reads)
  have "filter is_done_write
      (trace (case read_loop P m reads initial_state of Inl st' \<Rightarrow> st' | Inr st' \<Rightarrow> st')) = []"
    by (simp add: read_loop_no_done initial_state_def)
  with Some show ?thesis
    by (cases "read_loop P m reads initial_state")
       (simp_all add: handleStreamingResponse_def finish_stream_def write_done_def
          on_stream_error_def cleanup_def)
qed

lemma done_body_stream:
  \<open>handleStreamingResponse example_platform (Some [Chunk done_body]) (js ''m'') =
     [ReadUpstream,
      WriteOk (ChunkLine (make_chunk example_platform (js ''m'') 0
        \<lparr>data_text = Some (js ''Hel''), finish_reason = FinishUndefined\<rparr>)),
      WriteOk DoneLine, CloseWriter, CancelReader]\<close>
  by (simp add: handleStreamingResponse_def initial_state_def done_body_def example_facts
      emit_chunk_def example_platform_def finish_stream_def write_done_def cleanup_def)

text \<open>
  C2. In the streaming translator, once a write to the downstream channel is rejected,
  the calls that follow it are exactly \<^verbatim>\<open>writer.abort\<close> and \<^verbatim>\<open>reader.cancel\<close>: no further
  vendor line is turned into a chunk, nothing more is read from the vendor body, the
  downstream stream is aborted, the upstream reader is released, and the terminator line
  "data: [DONE]" is not written after the abort.
\<close>

theorem C2_write_failure_aborts:
  assumes "handleStreamingResponse P body m = pre @ WriteFailed line # post"
  shows "post = [AbortWriter, CancelReader]"
proof -
  from handleStreamingResponse_shape [of P body m]
  obtain pre' line' where shape:
    "handleStreamingResponse P body m = pre' @ WriteFailed line' # [AbortWriter, CancelReader]"
    "filter is_failed_write pre' = []"
    using assms by auto
  from shape(1) assms have eq:
    "pre @ WriteFailed line # post = pre' @ WriteFailed line' # [AbortWriter, CancelReader]"
    by simp
  then have "filter is_failed_write (pre @ WriteFailed line # post) =
      filter is_failed_write (pre' @ WriteFailed line' # [AbortWriter, CancelReader])"
    by simp
  with shape(2) have "filter is_failed_write pre = []"
    by (simp add: append_eq_Cons_conv split: if_splits)
  from failed_write_unique [OF this shape(2) eq] show ?thesis .
qed

theorem C2_write_failure_aborts_witness:
  \<open>handleStreamingResponse second_write_rejected (Some [Chunk example_body]) (js ''m'') =
     [ReadUpstream,
      WriteOk (ChunkLine (make_chunk second_write_rejected (js ''m'') 0
        \<lparr>data_text = Some (js ''Hel''), finish_reason = FinishUndefined\<rparr>))] @
      WriteFailed (ChunkLine (make_chunk second_write_rejected (js ''m'') 1
        \<lparr>data_text = Some (js ''lo''), finish_reason = FinishUndefined\<rparr>)) #
      [AbortWriter, CancelReader]\<close>
  using second_write_rejected_stream
  unfolding C2_write_failure_aborts [OF second_write_rejected_stream] .

text \<open>
  C5. In the streaming translator, when the next complete line of the buffer is
  significant and carries the token "[DONE]", the line loop stops there without writing
  a chunk for that line; the rest of the buffer and the remaining reads of the vendor body
  are not processed; and the translator then writes the terminator line "data: [DONE]"
  exactly once. If the channel accepts that write, the stream is closed after it; if the
  channel rejects it, the stream is aborted. (The two hypotheses on the state hold in
  every run: the line loop is left as soon as the stream is aborted, and by
  \<open>process_buffer_no_done\<close> and \<open>read_loop_no_done\<close> the loops write no terminator.)
\<close>

theorem C5_done_line_ends_stream:
  assumes "cut_at newline (buffer st) = Some (before, rest)"
    and "startsWith (trim before) (js ''data:'')"
    and "trim (drop 5 (trim before)) = js ''[DONE]''"
    and "\<not> aborted st"
    and "filter is_done_write (trace st) = []"
  shows "process_buffer P m st = st\<lparr>buffer := rest, streamFinished := True\<rparr>
       \<and> trace (finish_stream P (read_loop P m reads (process_buffer P m st))) =
           trace st @
             (if write_fails P (writes st) then [WriteFailed DoneLine, AbortWriter, CancelReader]
              else [WriteOk DoneLine, CloseWriter, CancelReader])
       \<and> length (filter is_done_write
             (trace (finish_stream P (read_loop P m reads (process_buffer P m st))))) = 1"
proof -
  have stop: "process_buffer P m st = st\<lparr>buffer := rest, streamFinished := True\<rparr>"
    using assms(1-3) by (rule process_buffer_done)
  have loop: "read_loop P m reads (st\<lparr>buffer := rest, streamFinished := True\<rparr>) =
      Inr (st\<lparr>buffer := rest, streamFinished := True\<rparr>)"
    by (cases reads) simp_all
  have calls: "trace (finish_stream P (read_loop P m reads (process_buffer P m st))) =
           trace st @
             (if write_fails P (writes st) then [WriteFailed DoneLine, AbortWriter, CancelReader]
              else [WriteOk DoneLine, CloseWriter, CancelReader])"
    using assms(4) by (simp add: stop loop finish_stream_def write_done_def cleanup_def)
  have "length (filter is_done_write
             (trace (finish_stream P (read_loop P m reads (process_buffer P m st))))) = 1"
    unfolding calls using assms(5) by simp
  with stop calls show ?thesis by simp
qed

theorem C5_done_line_ends_stream_witness:
  \<open>trace (finish_stream example_platform
      (read_loop example_platform (js ''m'') [Chunk (js ''data: {"text":"lo"}'' @ [newline])]
        (process_buffer example_platform (js ''m'')
          \<lparr>buffer = js ''data: [DONE]'' @ newline # js ''data: {"text":"Hel"}'' @ [newline],
           streamFinished = False, aborted = False, writes = 0, trace = [ReadUpstream]\<rparr>))) =
   [ReadUpstream, WriteOk DoneLine, CloseWriter, CancelReader]\<close>
proof -
  let ?st = \<open>\<lparr>buffer = js ''data: [DONE]'' @ newline # js ''data: {"text":"Hel"}'' @ [newline],
           streamFinished = False, aborted = False, writes = 0, trace = [ReadUpstream]\<rparr>\<close>
  have cut: \<open>cut_at newline (buffer ?st) =
      Some (js ''data: [DONE]'', js ''data: {"text":"Hel"}'' @ [newline])\<close>
    by (simp add: cut_at_append example_no_newline)
  have prefix: \<open>startsWith (trim (js ''data: [DONE]'')) (js ''data:'')\<close>
    by (simp add: example_trims example_prefixes)
  have token: \<open>trim (drop 5 (trim (js ''data: [DONE]''))) = js ''[DONE]''\<close>
    by (simp add: example_trims example_payloads)
  have live: \<open>\<not> aborted ?st\<close> by simp
  have fresh: \<open>filter is_done_write (trace ?st) = []\<close> by simp
  from C5_done_line_ends_stream [OF cut prefix token live fresh, of example_platform
      \<open>js ''m''\<close> \<open>[Chunk (js ''data: {"text":"lo"}'' @ [newline])]\<close>,
      THEN conjunct2, THEN conjunct1]
  show ?thesis by (simp add: example_platform_def)
qed

text \<open>
  One direction of the agreement holds: a line that the non-streaming parser takes as
  significant is significant for the streaming translator too.
\<close>

lemma trim_keeps_data_prefix:
  assumes "startsWith line (js ''data:'')"
  shows "startsWith (trim line) (js ''data:'')"
proof -
  have "take (length (js ''data:'')) line = js ''data:''"
    using assms by (simp add: startsWith_def)
  then obtain rest where line: "line = js ''data:'' @ rest"
    by (metis append_take_drop_id)
  have lead: "trimStart (js ''data:'' @ rest) = js ''data:'' @ rest"
    by (simp add: trimStart_def js_def is_whitespace_def)
  have tail: "dropWhile is_whitespace (rev (js ''data:'')) = rev (js ''data:'')"
    by (simp add: js_def is_whitespace_def)
  have "trimEnd (js ''data:'' @ rest) =
      js ''data:'' @ rev (dropWhile is_whitespace (rev rest))"
    by (simp add: trimEnd_def dropWhile_append tail)
  then show ?thesis
    by (simp add: line trim_def lead startsWith_def)
qed

text \<open>
  C3. The two modes do not agree on which lines are significant. The streaming
  translator trims a line before it looks for the prefix "data:"; the non-streaming parser
  looks for the prefix on the untrimmed line, so that it passes over a significant line
  that starts with white space. For the body that holds the event line
  \<^verbatim>\<open> data: {"text":"Hel"}\<close>, indented by one space, the non-streaming parser finds no
  fragment at all, while the streaming translator emits the chunk for "Hel".
\<close>

theorem C3_indented_line_divergence:
  \<open>parseSSEResponse example_platform indented_body = []
   \<and> handleStreamingResponse example_platform (Some [Chunk indented_body]) (js ''m'') =
       [ReadUpstream,
        WriteOk (ChunkLine (make_chunk example_platform (js ''m'') 0
          \<lparr>data_text = Some (js ''Hel''), finish_reason = FinishUndefined\<rparr>)),
        ReadUpstream, WriteOk DoneLine, CloseWriter, CancelReader]\<close>
proof
  have \<open>\<not> startsWith (js '' data: {"text":"Hel"}'') (js ''data:'')\<close>
    by (simp add: startsWith_def js_def)
  then show \<open>parseSSEResponse example_platform indented_body = []\<close>
    by (simp add: parseSSEResponse_concat indented_body_def split_append split_single
        example_no_newline line_fragment_def example_prefixes)
next
  show \<open>handleStreamingResponse example_platform (Some [Chunk indented_body]) (js ''m'') =
       [ReadUpstream,
        WriteOk (ChunkLine (make_chunk example_platform (js ''m'') 0
          \<lparr>data_text = Some (js ''Hel''), finish_reason = FinishUndefined\<rparr>)),
        ReadUpstream, WriteOk DoneLine, CloseWriter, CancelReader]\<close>
    by (simp add: handleStreamingResponse_def initial_state_def indented_body_def example_facts
        emit_chunk_def example_platform_def finish_stream_def write_done_def cleanup_def)
qed

text \<open>
  C4. The content of the non-streaming response is not, for every body, the concatenation
  of the fragments of the significant lines. On the body whose event line
  \<^verbatim>\<open> data: {"text":"Hel"}\<close> is indented by one space, the line is significant in the
  specification's grammar and carries the fragment "Hel", so that the content of the
  specification is "Hel"; the parser, which looks for the prefix on the untrimmed line,
  returns the empty content.
\<close>

theorem C4_indented_line_lost:
  \<open>map (message_content \<circ> message)
     (choices (handleNonStreamingResponse example_platform indented_body (js ''m''))) = [[]]
   \<and> spec_significant (js '' data: {"text":"Hel"}'')
   \<and> spec_content example_platform indented_body = js ''Hel''\<close>
proof (intro conjI)
  have \<open>\<not> startsWith (js '' data: {"text":"Hel"}'') (js ''data:'')\<close>
    by (simp add: startsWith_def js_def)
  then have \<open>parseSSEResponse example_platform indented_body = []\<close>
    by (simp add: parseSSEResponse_concat indented_body_def split_append split_single
        example_no_newline line_fragment_def example_prefixes)
  then show \<open>map (message_content \<circ> message)
     (choices (handleNonStreamingResponse example_platform indented_body (js ''m''))) = [[]]\<close>
    by (simp add: handleNonStreamingResponse_def)
next
  show \<open>spec_significant (js '' data: {"text":"Hel"}'')\<close>
    by (simp add: spec_significant_def example_trims example_prefixes)
next
  have empty_line: \<open>trim [] = []\<close>
    by (simp add: trim_def trimStart_def trimEnd_def)
  have parsed: \<open>JSON_parse example_platform (js ''{"text":"Hel"}'') =
      Some \<lparr>data_text = Some (js ''Hel''), finish_reason = FinishUndefined\<rparr>\<close>
    by (simp add: example_platform_def example_parses)
  show \<open>spec_content example_platform indented_body = js ''Hel''\<close>
    by (simp add: spec_content_def indented_body_def split_append split_single
        example_no_newline spec_line_fragment_def spec_significant_def example_trims
        example_prefixes example_payloads example_not_done parsed empty_line)
qed

section \<open>Properties of the signature engine\<close>

text \<open>
  Evaluation of the digest and of HMAC inside the logic: the definitions are unfolded by
  the simplifier. The first two facts are the test vectors of FIPS 180-4 ("abc") and of
  RFC 4231 (test case 2); the others are the values for the example request.
\<close>

lemma replicate_numeral_snoc:
  "replicate (numeral k) x = replicate (pred_numeral k) x @ [x]"
  by (simp add: numeral_eq_Suc replicate_append_same)

lemma length_Cons_plus: "length (x # xs) = length xs + 1"
  by simp

lemmas sha256_eval =
  sha256_def pad_def be64_def blocks.simps word_bytes_def bits_byte_def byte_bits_def
  compress_def K256_def H256_def hex_word_def nibble_bits_def next_word_def
  add32_def rotr_def shr_def Ch_def Maj_def Sigma0_def Sigma1_def sigma0_def sigma1_def
  not_bits_def replicate_numeral_snoc length_Cons_plus

lemmas hmac_eval = hmac_sha256_def hmac_key_block_def Let_def

lemmas text_eval = js_def hex_string_def hex_digit_def

lemma sha256_abc:
  "hex_string (sha256 (utf8_encode (js ''abc''))) =
   js ''ba7816bf8f01cfea414140de5dae2223b00361a396177a9cb410ff61f20015ad''"
  by (simp add: sha256_eval text_eval del: list.size(4))

lemma example_body_digest:
  \<open>hex_string (sha256 (utf8_encode (js ''{}''))) =
   js ''44136fa355b3678a1146ad16f7e8649e94fb4fc21fe77e8310c060f61caaff8a''\<close>
  by (simp add: sha256_eval text_eval del: list.size(4))

lemma example_message:
  \<open>rot13rot5Encode example_timestamp @ js ''.'' @ rot13rot5Encode (js ''device-1'') @ js ''.'' @
     rot13rot5Encode (js ''44136fa355b3678a1146ad16f7e8649e94fb4fc21fe77e8310c060f61caaff8a'') =
   js ''7579-56-56G55:55:55.555M.qrivpr-6.99681sn800o8123n6691nq61s2r3194r49so9sp76sr22r3865p515s16pnnss3n''\<close>
  by (simp add: example_timestamp_def rot13rot5Encode_def rot13rot5_unit_def js_def)

lemma hmac_sha256_rfc4231_case2:
  "hex_string (hmac_sha256 (utf8_encode (js ''Jefe''))
     (utf8_encode (js ''what do ya want for nothing?''))) =
   js ''5bdcc146bf60754e6a042426089575c75a003f089d2739839dec58b964ec3843''"
  by (simp add: hmac_eval sha256_eval text_eval del: list.size(4))

lemma example_hmac_default_secret:
  \<open>hex_string (hmac_sha256 (utf8_encode default_signature_secret)
     (utf8_encode (js ''7579-56-56G55:55:55.555M.qrivpr-6.99681sn800o8123n6691nq61s2r3194r49so9sp76sr22r3865p515s16pnnss3n''))) =
   js ''b246d097c9458e97167ab5a17cff6acf597cbfaa9133b40b0715dbdb53a123d2''\<close>
  by (simp add: default_signature_secret_def hmac_eval sha256_eval text_eval del: list.size(4))

lemma example_hmac_empty_key:
  \<open>hex_string (hmac_sha256 (utf8_encode [])
     (utf8_encode (js ''7579-56-56G55:55:55.555M.qrivpr-6.99681sn800o8123n6691nq61s2r3194r49so9sp76sr22r3865p515s16pnnss3n''))) =
   js ''66a046991af6f86d4f0a0c67a44d7b32895e39fc9efbda438fc0c69158102c80''\<close>
  by (simp add: hmac_eval sha256_eval text_eval del: list.size(4))

text \<open>
  C1, as amended. For every timestamp \<open>t\<close>, device identifier \<open>d\<close>, body string \<open>B\<close> and
  non-empty secret \<open>S\<close>, the signature is the lowercase-hex rendering of HMAC-SHA256,
  keyed with the UTF-8 bytes of \<open>S\<close>, over the message rot(t) + "." + rot(d) + "." +
  rot(h), where \<open>h\<close> is the lowercase-hex SHA-256 digest of the UTF-8 bytes of \<open>B\<close> and
  rot is the fixed substitution (ROT13 on A-Z and a-z, ROT5 on 0-9, all other characters
  unchanged) applied to each of the three strings independently. An empty secret is
  treated as absent: the signature is the one computed without a secret, and its key is
  the UTF-8 bytes of the default secret, over the same message.
\<close>

theorem C1_calculateSignatureV2:
  "(S \<noteq> [] \<longrightarrow>
      calculateSignatureV2 t d B (Some S) =
        hex_string (hmac_sha256 (utf8_encode S)
          (utf8_encode
             (rot13rot5Encode t @ js ''.'' @ rot13rot5Encode d @ js ''.'' @
              rot13rot5Encode (hex_string (sha256 (utf8_encode B)))))))
   \<and> calculateSignatureV2 t d B (Some []) = calculateSignatureV2 t d B None
   \<and> calculateSignatureV2 t d B (Some []) =
        hex_string (hmac_sha256 (utf8_encode default_signature_secret)
          (utf8_encode
             (rot13rot5Encode t @ js ''.'' @ rot13rot5Encode d @ js ''.'' @
              rot13rot5Encode (hex_string (sha256 (utf8_encode B))))))"
  by (simp add: calculateSignatureV2_def)

theorem C1_calculateSignatureV2_witness:
  \<open>calculateSignatureV2 example_timestamp (js ''device-1'') (js ''{}'') (Some (js ''secret'')) =
     hex_string (hmac_sha256 (utf8_encode (js ''secret''))
       (utf8_encode
          (rot13rot5Encode example_timestamp @ js ''.'' @ rot13rot5Encode (js ''device-1'') @ js ''.'' @
           rot13rot5Encode (hex_string (sha256 (utf8_encode (js ''{}'')))))))\<close>
proof -
  have \<open>js ''secret'' \<noteq> []\<close> by (simp add: js_def)
  then show ?thesis
    by (rule C1_calculateSignatureV2 [THEN conjunct1, THEN mp])
qed

theorem C1_empty_secret_counterexample:
  \<open>calculateSignatureV2 example_timestamp (js ''device-1'') (js ''{}'') (Some []) \<noteq>
     hex_string (hmac_sha256 (utf8_encode [])
       (utf8_encode
          (rot13rot5Encode example_timestamp @ js ''.'' @ rot13rot5Encode (js ''device-1'') @ js ''.'' @
           rot13rot5Encode (hex_string (sha256 (utf8_encode (js ''{}'')))))))\<close>
proof -
  have code: \<open>calculateSignatureV2 example_timestamp (js ''device-1'') (js ''{}'') (Some []) =
      js ''b246d097c9458e97167ab5a17cff6acf597cbfaa9133b40b0715dbdb53a123d2''\<close>
    by (simp add: calculateSignatureV2_def example_body_digest example_message
        example_hmac_default_secret)
  have claim: \<open>hex_string (hmac_sha256 (utf8_encode [])
       (utf8_encode
          (rot13rot5Encode example_timestamp @ js ''.'' @ rot13rot5Encode (js ''device-1'') @ js ''.'' @
           rot13rot5Encode (hex_string (sha256 (utf8_encode (js ''{}''))))))) =
      js ''66a046991af6f86d4f0a0c67a44d7b32895e39fc9efbda438fc0c69158102c80''\<close>
    by (simp only: example_body_digest example_message example_hmac_empty_key)
  have \<open>js ''b246d097c9458e97167ab5a17cff6acf597cbfaa9133b40b0715dbdb53a123d2'' \<noteq>
        js ''66a046991af6f86d4f0a0c67a44d7b32895e39fc9efbda438fc0c69158102c80''\<close>
    by (simp add: js_def)
  with code claim show ?thesis by simp
qed

text \<open>
  C8. For every timestamp, device identifier and body, the signature computed without a
  secret equals the signature computed with the default secret constant of the program:
  the same function, total, with the default as key.
\<close>

theorem C8_absent_secret_uses_default:
  "calculateSignatureV2 t d B None = calculateSignatureV2 t d B (Some default_signature_secret)"
  by (simp add: calculateSignatureV2_def default_signature_secret_def js_def)


section \<open>Properties of header assembly\<close>

lemma signature_header_name:
  "js ''X-Raycast-Signature-v2'' \<noteq> js ''Host''"
  "js ''X-Raycast-Signature-v2'' \<noteq> js ''Accept''"
  "js ''X-Raycast-Signature-v2'' \<noteq> js ''User-Agent''"
  "js ''X-Raycast-Signature-v2'' \<noteq> js ''Authorization''"
  "js ''X-Raycast-Signature-v2'' \<noteq> js ''Accept-Language''"
  "js ''X-Raycast-Signature-v2'' \<noteq> js ''Content-Type''"
  "js ''X-Raycast-Signature-v2'' \<noteq> js ''Connection''"
  "js ''X-Raycast-Signature-v2'' \<noteq> js ''X-Raycast-Timestamp''"
  "js ''X-Raycast-Signature-v2'' \<noteq> js ''X-Raycast-DeviceId''"
  by (simp_all add: js_def)



lemma getRaycastHeaders_signature:
  "getRaycastHeaders env timestamp bodyString (js ''X-Raycast-Signature-v2'') =
     (case bodyString of
        None \<Rightarrow> None
      | Some body \<Rightarrow>
          if body \<noteq> [] then
            Some (calculateSignatureV2 timestamp (RAYCAST_DEVICE_ID env) body
                    (RAYCAST_SIGNATURE_SECRET env))
          else None)"
  using signature_header_name
  by (simp add: getRaycastHeaders_def Let_def split: option.split)



lemma getRaycastHeaders_empty_body:
  \<open>js ''X-Raycast-Signature-v2'' \<notin> dom (getRaycastHeaders env timestamp (Some []))\<close>
  by (simp add: dom_def getRaycastHeaders_signature)

end
